theory Spec2Isabelle
  imports Main
begin

section \<open>Peer session negotiator: \<open>WebRTCWrapper::Impl\<close> (webrtc\_wrapper.cpp)\<close>

text \<open>
  The private fields of \<open>WebRTCWrapper::Impl\<close> with the initial values of lines 261--268
  (field names are the source's without the trailing underscore, which Isabelle
  reserves).
  \<open>observer\<close> records whether an observer is registered (a non-null shared pointer);
  \<open>remote_video_streams\<close> is the \<open>unordered_map<string, bool>\<close>.
\<close>

record Impl =
  observer :: bool
  is_initialized :: bool
  peer_connection_created :: bool
  local_streams_added :: bool
  local_video_setup :: bool
  local_audio_muted :: bool
  local_video_enabled :: bool
  remote_video_streams :: "string \<rightharpoonup> bool"

definition Impl_new :: Impl where
  "Impl_new = \<lparr> observer = False, is_initialized = False,
      peer_connection_created = False, local_streams_added = False,
      local_video_setup = False, local_audio_muted = False,
      local_video_enabled = True, remote_video_streams = Map.empty \<rparr>"

text \<open>
  A completion callback is either invoked before the operation returns
  (\<open>Immediate\<close>) or from a detached thread that first sleeps the given number of
  milliseconds (\<open>Detached\<close>).
\<close>

datatype 'a completion = Immediate 'a | Detached nat 'a

text \<open>
  The three lifecycle flags, and the assignment of a value to one of them.
\<close>

datatype lifecycle_flag = IS_INITIALIZED | PEER_CONNECTION_CREATED | LOCAL_STREAMS_ADDED

fun assign :: "lifecycle_flag \<times> bool \<Rightarrow> Impl \<Rightarrow> Impl" where
  "assign (IS_INITIALIZED, b) w = w\<lparr>is_initialized := b\<rparr>"
| "assign (PEER_CONNECTION_CREATED, b) w = w\<lparr>peer_connection_created := b\<rparr>"
| "assign (LOCAL_STREAMS_ADDED, b) w = w\<lparr>local_streams_added := b\<rparr>"

definition Initialize :: "Impl \<Rightarrow> bool \<times> Impl" where
  "Initialize w = (True, w\<lparr>is_initialized := True\<rparr>)"

text \<open>
  \<open>ClosePeerConnection\<close>, lines 58--72: past the test of line 59 it executes two
  assignments, \<open>peer_connection_created_ = false\<close> at line 69 and then
  \<open>local_streams_added_ = false\<close> at line 70. The operation is the sequence of its
  assignments, run in the order of the statements.
\<close>

definition ClosePeerConnection_writes :: "Impl \<Rightarrow> (lifecycle_flag \<times> bool) list" where
  "ClosePeerConnection_writes w =
     (if \<not> peer_connection_created w then []
      else [(PEER_CONNECTION_CREATED, False), (LOCAL_STREAMS_ADDED, False)])"

definition ClosePeerConnection :: "Impl \<Rightarrow> Impl" where
  "ClosePeerConnection w = fold assign (ClosePeerConnection_writes w) w"

text \<open>
  \<open>Cleanup\<close>, lines 27--36: when a peer connection exists it calls
  \<open>ClosePeerConnection\<close> (line 31), whose assignments then run, and after that it
  executes \<open>is_initialized_ = false\<close> at line 34.
\<close>

definition Cleanup_writes :: "Impl \<Rightarrow> (lifecycle_flag \<times> bool) list" where
  "Cleanup_writes w =
     (if peer_connection_created w then ClosePeerConnection_writes w else [])
       @ [(IS_INITIALIZED, False)]"

definition Cleanup :: "Impl \<Rightarrow> Impl" where
  "Cleanup w = fold assign (Cleanup_writes w) w"

definition CreatePeerConnection :: "Impl \<Rightarrow> bool \<times> Impl" where
  "CreatePeerConnection w =
     (if \<not> is_initialized w then (False, w)
      else (True, w\<lparr>peer_connection_created := True\<rparr>))"

text \<open>
  \<open>AddLocalStreams\<close> also starts, when an observer is registered, a detached thread
  that calls \<open>OnLocalStreamAdded\<close> 100 ms later; that notification changes no field.
\<close>

definition AddLocalStreams :: "Impl \<Rightarrow> bool \<times> Impl" where
  "AddLocalStreams w =
     (if \<not> peer_connection_created w then (False, w)
      else (True, w\<lparr>local_streams_added := True\<rparr>))"

definition AddLocalStreams_notifies :: "Impl \<Rightarrow> bool" where
  "AddLocalStreams_notifies w = (peer_connection_created w \<and> observer w)"

definition RemoveLocalStreams :: "Impl \<Rightarrow> Impl" where
  "RemoveLocalStreams w =
     (if \<not> local_streams_added w then w else w\<lparr>local_streams_added := False\<rparr>)"

definition offer_sdp :: string where
  "offer_sdp = ''v=0'' @ [CHR 0x0D, CHR 0x0A] @ ''o=- 123456789 2 IN IP4 127.0.0.1''
     @ [CHR 0x0D, CHR 0x0A] @ ''s=-'' @ [CHR 0x0D, CHR 0x0A] @ ''t=0 0'' @ [CHR 0x0D, CHR 0x0A]"

definition answer_sdp :: string where
  "answer_sdp = ''v=0'' @ [CHR 0x0D, CHR 0x0A] @ ''o=- 987654321 2 IN IP4 127.0.0.1''
     @ [CHR 0x0D, CHR 0x0A] @ ''s=-'' @ [CHR 0x0D, CHR 0x0A] @ ''t=0 0'' @ [CHR 0x0D, CHR 0x0A]"

definition CreateOffer :: "Impl \<Rightarrow> (string \<times> bool) completion \<times> Impl" where
  "CreateOffer w =
     (if \<not> peer_connection_created w then (Immediate ('''', False), w)
      else (Detached 50 (offer_sdp, True), w))"

definition CreateAnswer :: "Impl \<Rightarrow> (string \<times> bool) completion \<times> Impl" where
  "CreateAnswer w =
     (if \<not> peer_connection_created w then (Immediate ('''', False), w)
      else (Detached 50 (answer_sdp, True), w))"

definition SetLocalDescription :: "string \<Rightarrow> string \<Rightarrow> Impl \<Rightarrow> bool completion \<times> Impl" where
  "SetLocalDescription type sdp w = (Detached 10 True, w)"

definition SetRemoteDescription :: "string \<Rightarrow> string \<Rightarrow> Impl \<Rightarrow> bool completion \<times> Impl" where
  "SetRemoteDescription type sdp w = (Detached 10 True, w)"

definition IsConnected :: "Impl \<Rightarrow> bool" where
  "IsConnected w = (peer_connection_created w \<and> local_streams_added w)"

subsection \<open>Sequences of lifecycle operations and the order of their flag writes\<close>

datatype negotiator_op =
    OpInitialize | OpCreatePeerConnection | OpAddLocalStreams
  | OpRemoveLocalStreams | OpClosePeerConnection | OpCleanup

fun apply_op :: "negotiator_op \<Rightarrow> Impl \<Rightarrow> Impl" where
  "apply_op OpInitialize w = snd (Initialize w)"
| "apply_op OpCreatePeerConnection w = snd (CreatePeerConnection w)"
| "apply_op OpAddLocalStreams w = snd (AddLocalStreams w)"
| "apply_op OpRemoveLocalStreams w = RemoveLocalStreams w"
| "apply_op OpClosePeerConnection w = ClosePeerConnection w"
| "apply_op OpCleanup w = Cleanup w"

definition run_ops :: "negotiator_op list \<Rightarrow> Impl \<Rightarrow> Impl" where
  "run_ops ops w = fold apply_op ops w"

definition flags_ordered :: "Impl \<Rightarrow> bool" where
  "flags_ordered w =
     ((local_streams_added w \<longrightarrow> peer_connection_created w)
      \<and> (peer_connection_created w \<longrightarrow> is_initialized w))"

text \<open>
  The assignments to the three lifecycle flags that an operation executes, in the order
  of its statements.
\<close>

fun op_writes :: "negotiator_op \<Rightarrow> Impl \<Rightarrow> (lifecycle_flag \<times> bool) list" where
  "op_writes OpInitialize w = [(IS_INITIALIZED, True)]"
| "op_writes OpCreatePeerConnection w =
     (if \<not> is_initialized w then [] else [(PEER_CONNECTION_CREATED, True)])"
| "op_writes OpAddLocalStreams w =
     (if \<not> peer_connection_created w then [] else [(LOCAL_STREAMS_ADDED, True)])"
| "op_writes OpRemoveLocalStreams w =
     (if \<not> local_streams_added w then [] else [(LOCAL_STREAMS_ADDED, False)])"
| "op_writes OpClosePeerConnection w = ClosePeerConnection_writes w"
| "op_writes OpCleanup w = Cleanup_writes w"

text \<open>The states the negotiator passes through while a list of assignments runs.\<close>

fun states_during :: "(lifecycle_flag \<times> bool) list \<Rightarrow> Impl \<Rightarrow> Impl list" where
  "states_during [] w = []"
| "states_during (a # as) w = assign a w # states_during as (assign a w)"

text \<open>The flags a list of assignments clears, in order.\<close>

definition cleared :: "(lifecycle_flag \<times> bool) list \<Rightarrow> lifecycle_flag list" where
  "cleared ws = map fst (filter (\<lambda>a. \<not> snd a) ws)"

text \<open>All flag assignments of a sequence of operations, in the order they execute.\<close>

fun run_writes :: "negotiator_op list \<Rightarrow> Impl \<Rightarrow> (lifecycle_flag \<times> bool) list" where
  "run_writes [] w = []"
| "run_writes (op # ops) w = op_writes op w @ run_writes ops (apply_op op w)"

text \<open>
  The negotiator on which \<open>Initialize\<close>, \<open>CreatePeerConnection\<close> and \<open>AddLocalStreams\<close>
  have succeeded, in that order.
\<close>

definition connected_negotiator :: Impl where
  "connected_negotiator =
     Impl_new\<lparr>is_initialized := True, peer_connection_created := True,
       local_streams_added := True\<rparr>"

section \<open>Session orchestrator: \<open>RtcEngineImpl\<close> (rtc\_engine\_impl.cpp)\<close>

datatype ConnectionState = DISCONNECTED | CONNECTING | CONNECTED | RECONNECTING | FAILED

text \<open>\<open>static_cast<int>\<close> of the enumerators of rtc\_engine\_impl.h, lines 64--70.\<close>

fun state_int :: "ConnectionState \<Rightarrow> int" where
  "state_int DISCONNECTED = 1"
| "state_int CONNECTING = 2"
| "state_int CONNECTED = 3"
| "state_int RECONNECTING = 4"
| "state_int FAILED = 5"

text \<open>One value per method of the abstract class \<open>RtcEngineImpl::Callback\<close>.\<close>

datatype event =
    OnUserJoined string
  | OnUserOffline string int
  | OnConnectionStateChanged int int
  | OnError int string
  | OnJoinChannelSuccess string string int
  | OnLeaveChannel
  | OnFirstRemoteVideoDecoded string int int int
  | OnFirstLocalVideoFrame int int int
  | OnRtcStats string

text \<open>
  The public interface of class \<open>WebRTCWrapper\<close> as far as the orchestrator calls it,
  over a negotiator state \<open>'w\<close>. The orchestrator reaches the negotiator only through
  these methods and branches on the booleans they return.
\<close>

record 'w wrapper_api =
  api_Initialize :: "'w \<Rightarrow> bool \<times> 'w"
  api_Cleanup :: "'w \<Rightarrow> 'w"
  api_CreatePeerConnection :: "'w \<Rightarrow> bool \<times> 'w"
  api_ClosePeerConnection :: "'w \<Rightarrow> 'w"
  api_AddLocalStreams :: "'w \<Rightarrow> bool \<times> 'w"

text \<open>The forwarding methods of webrtc\_wrapper.cpp, lines 282--309.\<close>

definition WebRTCWrapper :: "Impl wrapper_api" where
  "WebRTCWrapper = \<lparr> api_Initialize = Initialize, api_Cleanup = Cleanup,
      api_CreatePeerConnection = CreatePeerConnection,
      api_ClosePeerConnection = ClosePeerConnection,
      api_AddLocalStreams = AddLocalStreams \<rparr>"

text \<open>
  The state of one \<open>RtcEngineImpl\<close>. \<open>webrtc_wrapper\<close> is the \<open>unique_ptr\<close>
  (\<open>None\<close> is null); \<open>worker_thread\<close> is true while the \<open>std::thread\<close> is joinable;
  \<open>state_mutex\<close> is true while the calling thread owns the (non-recursive)
  \<open>std::mutex\<close>; \<open>callback\<close> is the \<open>shared_ptr<Callback>\<close>: \<open>None\<close> is null and
  \<open>Some log\<close> a registered sink together with the calls it has received so far, oldest
  first.
\<close>

record 'w RtcEngineImpl =
  webrtc_wrapper :: "'w option"
  connection_state :: ConnectionState
  current_channel :: string
  current_user_id :: string
  current_token :: string
  worker_thread :: bool
  should_stop :: bool
  state_mutex :: bool
  callback :: "event list option"

text \<open>
  What a call does to its caller: it returns a value, or the calling thread locks
  \<open>state_mutex\<close> while owning it (\<open>Deadlock\<close>: the C++ standard leaves this undefined,
  the thread blocks for ever or \<open>std::system_error\<close> leaves the function), or
  \<open>std::terminate\<close> is called (\<open>Terminate\<close>: a joinable \<open>std::thread\<close> is assigned to).
\<close>

datatype 'a outcome = Returns 'a | Deadlock | Terminate

definition InvokeCallback :: "event \<Rightarrow> 'w RtcEngineImpl \<Rightarrow> 'w RtcEngineImpl" where
  "InvokeCallback e s =
     (case callback s of None \<Rightarrow> s | Some log \<Rightarrow> s\<lparr>callback := Some (log @ [e])\<rparr>)"

definition SetConnectionState ::
  "ConnectionState \<Rightarrow> int \<Rightarrow> 'w RtcEngineImpl \<Rightarrow> 'w RtcEngineImpl" where
  "SetConnectionState new_state reason s =
     (let old_state = connection_state s;
          s1 = s\<lparr>connection_state := new_state\<rparr>
      in if old_state \<noteq> new_state
         then InvokeCallback (OnConnectionStateChanged (state_int new_state) reason) s1
         else s1)"

text \<open>Sequencing of calls: what follows a call runs only if the call returns.\<close>

definition and_then :: "'a outcome \<Rightarrow> ('a \<Rightarrow> 'b outcome) \<Rightarrow> 'b outcome" where
  "and_then x f = (case x of Returns a \<Rightarrow> f a | Deadlock \<Rightarrow> Deadlock | Terminate \<Rightarrow> Terminate)"

text \<open>
  \<open>std::lock_guard<std::mutex> lock(state_mutex_)\<close>: construction locks, the end of the
  enclosing scope unlocks. \<open>state_mutex_\<close> is declared \<open>std::mutex\<close>
  (rtc\_engine\_impl.h, line 167), so locking it while owning it does not return.
\<close>

definition lock_guard :: "'w RtcEngineImpl \<Rightarrow> 'w RtcEngineImpl outcome" where
  "lock_guard s = (if state_mutex s then Deadlock else Returns (s\<lparr>state_mutex := True\<rparr>))"

definition unlock :: "'w RtcEngineImpl \<Rightarrow> 'w RtcEngineImpl" where
  "unlock s = s\<lparr>state_mutex := False\<rparr>"

text \<open>
  The constructor, lines 56--97: \<open>w0\<close> is the state of the negotiator just made by
  \<open>make_unique\<close>; \<open>None\<close> is the \<open>std::runtime_error\<close> rethrown when \<open>Initialize\<close>
  returns false. The other fields take the initialisers of rtc\_engine\_impl.h.
\<close>

definition RtcEngineImpl_ctor :: "'w wrapper_api \<Rightarrow> 'w \<Rightarrow> 'w RtcEngineImpl option" where
  "RtcEngineImpl_ctor api w0 =
     (let (ok, w1) = api_Initialize api w0
      in if \<not> ok then None
         else Some \<lparr> webrtc_wrapper = Some w1, connection_state = DISCONNECTED,
                current_channel = [], current_user_id = [], current_token = [],
                worker_thread = False, should_stop = False, state_mutex = False,
                callback = None \<rparr>)"

definition SetCallback :: "event list option \<Rightarrow> 'w RtcEngineImpl \<Rightarrow> 'w RtcEngineImpl outcome" where
  "SetCallback cb s = and_then (lock_guard s) (\<lambda>s1. Returns (unlock (s1\<lparr>callback := cb\<rparr>)))"

definition GetConnectionState :: "'w RtcEngineImpl \<Rightarrow> ConnectionState" where
  "GetConnectionState s = connection_state s"

definition GetCurrentChannel :: "'w RtcEngineImpl \<Rightarrow> (string \<times> 'w RtcEngineImpl) outcome" where
  "GetCurrentChannel s = and_then (lock_guard s) (\<lambda>s1. Returns (current_channel s1, unlock s1))"

definition GetCurrentUserId :: "'w RtcEngineImpl \<Rightarrow> (string \<times> 'w RtcEngineImpl) outcome" where
  "GetCurrentUserId s = and_then (lock_guard s) (\<lambda>s1. Returns (current_user_id s1, unlock s1))"

definition IsInChannel :: "'w RtcEngineImpl \<Rightarrow> (bool \<times> 'w RtcEngineImpl) outcome" where
  "IsInChannel s = and_then (lock_guard s) (\<lambda>s1. Returns (current_channel s1 \<noteq> [], unlock s1))"

text \<open>
  The \<open>try\<close> block of \<open>JoinChannel\<close>, lines 148--195, with \<open>w\<close> the negotiator that
  \<open>webrtc_wrapper_\<close> points to. \<open>spawn_fails\<close> says whether the constructor of
  \<open>std::thread\<close> at line 173 throws \<open>std::system_error\<close>, the exception the
  \<open>catch\<close> clause of line 188 then handles; move-assigning to a joinable
  \<open>worker_thread_\<close> calls \<open>std::terminate\<close>. The \<open>sleep_for\<close> of line 177 changes
  no field.
\<close>

definition JoinChannel_try ::
  "'w wrapper_api \<Rightarrow> bool \<Rightarrow> string \<Rightarrow> string \<Rightarrow> string \<Rightarrow> 'w \<Rightarrow> 'w RtcEngineImpl
     \<Rightarrow> (int \<times> 'w RtcEngineImpl) outcome" where
  "JoinChannel_try api spawn_fails token channel_name user_id w s =
     (let s1 = SetConnectionState CONNECTING 1 s;
          s2 = s1\<lparr>current_channel := channel_name, current_user_id := user_id,
                  current_token := token\<rparr>;
          (created, w1) = api_CreatePeerConnection api w;
          s3 = s2\<lparr>webrtc_wrapper := Some w1\<rparr>
      in if \<not> created then Returns (- 4, SetConnectionState FAILED 5 s3)
         else
           let (added, w2) = api_AddLocalStreams api w1;
               s4 = s3\<lparr>webrtc_wrapper := Some w2\<rparr>
           in if \<not> added then Returns (- 5, SetConnectionState FAILED 5 s4)
              else
                let s5 = s4\<lparr>should_stop := False\<rparr>
                in if spawn_fails
                   then Returns (- 6, (SetConnectionState FAILED 5 s5)
                          \<lparr>current_channel := [], current_user_id := [], current_token := []\<rparr>)
                   else if worker_thread s5 then Terminate
                   else
                     let s6 = s5\<lparr>worker_thread := True\<rparr>;
                         s7 = SetConnectionState CONNECTED 2 s6;
                         s8 = InvokeCallback (OnJoinChannelSuccess channel_name user_id 100) s7
                     in Returns (0, s8))"

text \<open>
  \<open>JoinChannel\<close> from line 132 on, as a function of the value \<open>in_channel\<close> that the
  call \<open>IsInChannel()\<close> of line 132 returns.
\<close>

definition JoinChannel_body ::
  "'w wrapper_api \<Rightarrow> bool \<Rightarrow> string \<Rightarrow> string \<Rightarrow> string \<Rightarrow> bool \<Rightarrow> 'w RtcEngineImpl
     \<Rightarrow> (int \<times> 'w RtcEngineImpl) outcome" where
  "JoinChannel_body api spawn_fails token channel_name user_id in_channel s =
     (if in_channel then Returns (- 1, s)
      else case webrtc_wrapper s of
          None \<Rightarrow> Returns (- 2, s)
        | Some w \<Rightarrow>
            if token = [] \<or> channel_name = [] \<or> user_id = [] then Returns (- 3, s)
            else JoinChannel_try api spawn_fails token channel_name user_id w s)"

text \<open>
  \<open>JoinChannel\<close>, lines 127--196: the lock of line 130 is held until the function
  returns, and line 132 calls \<open>IsInChannel()\<close>, which locks \<open>state_mutex_\<close> itself
  (line 301).
\<close>

definition JoinChannel ::
  "'w wrapper_api \<Rightarrow> bool \<Rightarrow> string \<Rightarrow> string \<Rightarrow> string \<Rightarrow> 'w RtcEngineImpl
     \<Rightarrow> (int \<times> 'w RtcEngineImpl) outcome" where
  "JoinChannel api spawn_fails token channel_name user_id s =
     and_then (lock_guard s) (\<lambda>s1.
     and_then (IsInChannel s1) (\<lambda>(in_channel, s2).
     and_then (JoinChannel_body api spawn_fails token channel_name user_id in_channel s2)
       (\<lambda>(code, s3). Returns (code, unlock s3))))"

text \<open>
  \<open>LeaveChannel\<close> from line 203 on, as a function of the value that \<open>IsInChannel()\<close>
  returns there; \<open>join\<close> makes the worker thread not joinable.
\<close>

definition LeaveChannel_body ::
  "'w wrapper_api \<Rightarrow> bool \<Rightarrow> 'w RtcEngineImpl \<Rightarrow> (int \<times> 'w RtcEngineImpl) outcome" where
  "LeaveChannel_body api in_channel s =
     (if \<not> in_channel then Returns (0, s)
      else
        let s1 = s\<lparr>should_stop := True\<rparr>;
            s2 = (if worker_thread s1 then s1\<lparr>worker_thread := False\<rparr> else s1);
            s3 = (case webrtc_wrapper s2 of
                    None \<Rightarrow> s2
                  | Some w \<Rightarrow> s2\<lparr>webrtc_wrapper := Some (api_ClosePeerConnection api w)\<rparr>);
            s4 = s3\<lparr>current_channel := [], current_user_id := [], current_token := []\<rparr>;
            s5 = SetConnectionState DISCONNECTED 6 s4;
            s6 = InvokeCallback OnLeaveChannel s5
        in Returns (0, s6))"

definition LeaveChannel ::
  "'w wrapper_api \<Rightarrow> 'w RtcEngineImpl \<Rightarrow> (int \<times> 'w RtcEngineImpl) outcome" where
  "LeaveChannel api s =
     and_then (lock_guard s) (\<lambda>s1.
     and_then (IsInChannel s1) (\<lambda>(in_channel, s2).
     and_then (LeaveChannel_body api in_channel s2) (\<lambda>(code, s3). Returns (code, unlock s3))))"

text \<open>
  The orchestrator that \<open>nativeCreateEngine\<close> stores: constructed over the repository's
  negotiator, with a sink registered that has received nothing yet.
\<close>

definition created_engine :: "Impl RtcEngineImpl" where
  "created_engine =
     \<lparr> webrtc_wrapper = Some (Impl_new\<lparr>is_initialized := True\<rparr>),
       connection_state = DISCONNECTED,
       current_channel = [], current_user_id = [], current_token = [],
       worker_thread = False, should_stop = False, state_mutex = False,
       callback = Some [] \<rparr>"

text \<open>
  An orchestrator in the channel \<open>lobby\<close>: the state \<open>JoinChannel_body\<close> produces from
  \<open>created_engine\<close> for the token \<open>tok\<close>, the channel \<open>lobby\<close> and the user \<open>alice\<close>.
\<close>

definition joined_engine :: "Impl RtcEngineImpl" where
  "joined_engine =
     \<lparr> webrtc_wrapper = Some (Impl_new\<lparr>is_initialized := True,
          peer_connection_created := True, local_streams_added := True\<rparr>),
       connection_state = CONNECTED,
       current_channel = ''lobby'', current_user_id = ''alice'', current_token = ''tok'',
       worker_thread = True, should_stop = False, state_mutex = False,
       callback = Some [OnConnectionStateChanged 2 1, OnConnectionStateChanged 3 2,
                        OnJoinChannelSuccess ''lobby'' ''alice'' 100] \<rparr>"

section \<open>Boundary registry: the handle table of jni\_interface.cpp\<close>

text \<open>
  The globals of lines 20--22: \<open>g_engines\<close> maps a \<open>jlong\<close> handle to the shared pointer
  of an orchestrator \<open>'e\<close>, \<open>g_next_handle\<close> starts at 1. (\<open>g_engines_mutex\<close> is taken and
  released inside each operation and never nested.)
\<close>

record 'e registry =
  g_engines :: "int \<rightharpoonup> 'e"
  g_next_handle :: int

definition registry_init :: "'e registry" where
  "registry_init = \<lparr> g_engines = Map.empty, g_next_handle = 1 \<rparr>"

text \<open>The largest \<open>jlong\<close>; incrementing it is signed overflow, which C++ leaves undefined.\<close>

definition JLONG_MAX :: int where
  "JLONG_MAX = 2 ^ 63 - 1"

text \<open>
  \<open>nativeCreateEngine\<close>, lines 211--243. \<open>made\<close> is the outcome of lines 215--226:
  the orchestrator made from the configuration text with its sink set, or \<open>None\<close> when
  a \<open>std::exception\<close> was thrown there, which line 239 catches to return 0 with the
  table untouched. The result \<open>None\<close> is the undefined behaviour of incrementing
  \<open>g_next_handle\<close> beyond \<open>JLONG_MAX\<close>.
\<close>

definition nativeCreateEngine :: "'e option \<Rightarrow> 'e registry \<Rightarrow> (int \<times> 'e registry) option" where
  "nativeCreateEngine made r =
     (case made of
        None \<Rightarrow> Some (0, r)
      | Some engine \<Rightarrow>
          if g_next_handle r = JLONG_MAX then None
          else
            let handle = g_next_handle r
            in Some (handle, r\<lparr>g_next_handle := handle + 1,
                               g_engines := (g_engines r)(handle \<mapsto> engine)\<rparr>))"

definition nativeDestroyEngine :: "int \<Rightarrow> 'e registry \<Rightarrow> 'e registry" where
  "nativeDestroyEngine handle r =
     (case g_engines r handle of
        None \<Rightarrow> r
      | Some engine \<Rightarrow> r\<lparr>g_engines := (g_engines r)(handle := None)\<rparr>)"

definition get_engine :: "int \<Rightarrow> 'e registry \<Rightarrow> 'e option" where
  "get_engine handle r = g_engines r handle"

text \<open>A sequence of create, destroy and resolve operations, and what each returns.\<close>

datatype 'e command = Create "'e option" | Destroy int | Resolve int

datatype 'e reply = Created int | Destroyed | Resolved "'e option"

fun exec :: "'e command \<Rightarrow> 'e registry \<Rightarrow> ('e reply \<times> 'e registry) option" where
  "exec (Create made) r =
     (case nativeCreateEngine made r of None \<Rightarrow> None | Some (h, r1) \<Rightarrow> Some (Created h, r1))"
| "exec (Destroy h) r = Some (Destroyed, nativeDestroyEngine h r)"
| "exec (Resolve h) r = Some (Resolved (get_engine h r), r)"

fun run :: "'e command list \<Rightarrow> 'e registry \<Rightarrow> ('e reply list \<times> 'e registry) option" where
  "run [] r = Some ([], r)"
| "run (c # cs) r =
     (case exec c r of
        None \<Rightarrow> None
      | Some (x, r1) \<Rightarrow>
          (case run cs r1 of None \<Rightarrow> None | Some (xs, r2) \<Rightarrow> Some (x # xs, r2)))"

text \<open>The handles that the creations of a run returned, in order (0 reports a failed creation).\<close>

fun issued :: "'e reply list \<Rightarrow> int list" where
  "issued [] = []"
| "issued (Created h # xs) = (if h = 0 then issued xs else h # issued xs)"
| "issued (x # xs) = issued xs"

text \<open>
  Handle \<open>h\<close> was returned by a creation of the run that stored orchestrator \<open>e\<close>, and no
  later operation of the run destroyed \<open>h\<close>.
\<close>

definition live_since :: "'e command list \<Rightarrow> 'e reply list \<Rightarrow> int \<Rightarrow> 'e \<Rightarrow> bool" where
  "live_since cs rs h e =
     (\<exists>i<length cs. cs ! i = Create (Some e) \<and> rs ! i = Created h
        \<and> (\<forall>j. i < j \<and> j < length cs \<longrightarrow> cs ! j \<noteq> Destroy h))"

definition table_inv :: "'e command list \<Rightarrow> 'e reply list \<Rightarrow> 'e registry \<Rightarrow> bool" where
  "table_inv cs rs r =
     (length rs = length cs
      \<and> g_next_handle r = 1 + int (length (issued rs))
      \<and> issued rs = [1..int (length (issued rs))]
      \<and> (\<forall>h e. g_engines r h = Some e \<longrightarrow> live_since cs rs h e))"

text \<open>Every stored handle lies between 1 and the next handle to be given out.\<close>

definition handles_in_range :: "'e registry \<Rightarrow> bool" where
  "handles_in_range r =
     (1 \<le> g_next_handle r
      \<and> (\<forall>h. g_engines r h \<noteq> None \<longrightarrow> 1 \<le> h \<and> h < g_next_handle r))"

section \<open>Configuration model: json\_helper.cpp and \<open>Config::FromJson\<close>\<close>

text \<open>
  \<open>std::string\<close> is a list of bytes. A library operation that can throw returns an
  option: \<open>None\<close> is a \<open>std::exception\<close> leaving it.
\<close>






























text \<open>
  What a call of the parser does: it returns a value, a \<open>std::exception\<close> leaves it
  (\<open>Throws\<close>), or its recursion exhausts the machine stack and the process dies
  (\<open>StackOverflow\<close>). \<open>after\<close> continues after a library operation, \<open>on_ok\<close> after a
  call of the parser; both stop at the first exception or crash, as the C++ does.
\<close>

datatype 'a result = Ok 'a | Throws | StackOverflow

definition after :: "'a option \<Rightarrow> ('a \<Rightarrow> 'b result) \<Rightarrow> 'b result" where
  "after x f = (case x of None \<Rightarrow> Throws | Some a \<Rightarrow> f a)"

definition on_ok :: "'a result \<Rightarrow> ('a \<Rightarrow> 'b result) \<Rightarrow> 'b result" where
  "on_ok x f = (case x of Ok a \<Rightarrow> f a | Throws \<Rightarrow> Throws | StackOverflow \<Rightarrow> StackOverflow)"

lemma after_cong [fundef_cong]:
  "x = y \<Longrightarrow> (\<And>a. y = Some a \<Longrightarrow> f a = g a) \<Longrightarrow> after x f = after y g"
  by (cases y) (simp_all add: after_def)

lemma on_ok_cong [fundef_cong]:
  "x = y \<Longrightarrow> (\<And>a. y = Ok a \<Longrightarrow> f a = g a) \<Longrightarrow> on_ok x f = on_ok y g"
  by (cases y) (simp_all add: on_ok_def)














section \<open>Connection-state transitions\<close>

text \<open>
  C4. \<open>SetConnectionState new_state reason\<close> always stores \<open>new_state\<close>. With a sink
  registered, the sink receives \<open>OnConnectionStateChanged\<close> with the integer of
  \<open>new_state\<close> and the unmodified \<open>reason\<close> exactly when the stored state differed from
  \<open>new_state\<close>, and receives nothing otherwise; no other field changes.
\<close>

theorem SetConnectionState_notifies_iff_changed:
  assumes "callback s = Some log"
  shows "connection_state (SetConnectionState new_state reason s) = new_state
       \<and> callback (SetConnectionState new_state reason s) =
           Some (log @ (if connection_state s \<noteq> new_state
                        then [OnConnectionStateChanged (state_int new_state) reason] else []))
       \<and> SetConnectionState new_state reason s =
           s\<lparr>connection_state := new_state,
             callback := callback (SetConnectionState new_state reason s)\<rparr>"
  using assms by (simp add: SetConnectionState_def InvokeCallback_def Let_def)


theorem SetConnectionState_notifies_iff_changed_witness:
  "callback created_engine = Some []
   \<and> callback (SetConnectionState CONNECTING 1 created_engine)
       = Some [OnConnectionStateChanged 2 1]
   \<and> callback (SetConnectionState DISCONNECTED 6 created_engine) = Some []
   \<and> connection_state (SetConnectionState CONNECTING 1 created_engine) = CONNECTING"
proof -
  have h: "callback created_engine = Some []"
    by (simp add: created_engine_def)
  have d: "connection_state created_engine = DISCONNECTED"
    by (simp add: created_engine_def)
  show ?thesis
    using h d
      SetConnectionState_notifies_iff_changed [OF h, of CONNECTING 1]
      SetConnectionState_notifies_iff_changed [OF h, of DISCONNECTED 6]
    by simp
qed

section \<open>Joining and leaving\<close>

lemma created_engine_is_constructed:
  "\<exists>e. RtcEngineImpl_ctor WebRTCWrapper Impl_new = Some e
     \<and> SetCallback (Some []) e = Returns created_engine"
  by (simp add: RtcEngineImpl_ctor_def WebRTCWrapper_def Initialize_def SetCallback_def
      and_then_def lock_guard_def unlock_def created_engine_def)

lemma IsInChannel_under_lock: "state_mutex s \<Longrightarrow> IsInChannel s = Deadlock"
  by (simp add: IsInChannel_def lock_guard_def and_then_def)

lemma JoinChannel_relocks: "JoinChannel api spawn_fails token channel_name user_id s = Deadlock"
  by (simp add: JoinChannel_def lock_guard_def and_then_def IsInChannel_under_lock)

lemma LeaveChannel_relocks: "LeaveChannel api s = Deadlock"
  by (simp add: LeaveChannel_def lock_guard_def and_then_def IsInChannel_under_lock)

text \<open>
  What the rest of \<open>JoinChannel\<close> does once \<open>IsInChannel()\<close> has answered "no": with a
  negotiator whose two steps succeed, a thread that starts and a registered sink, it
  returns 0, stores the membership, reaches \<open>CONNECTED\<close> and the sink receives the three
  calls in order.
\<close>

lemma JoinChannel_body_joins:
  assumes "webrtc_wrapper s = Some w"
    and "token \<noteq> []" and "channel_name \<noteq> []" and "user_id \<noteq> []"
    and "api_CreatePeerConnection api w = (True, w1)"
    and "api_AddLocalStreams api w1 = (True, w2)"
    and "\<not> worker_thread s" and "connection_state s = DISCONNECTED"
    and "callback s = Some log"
  shows "JoinChannel_body api False token channel_name user_id False s =
     Returns (0, s\<lparr>webrtc_wrapper := Some w2, connection_state := CONNECTED,
                   current_channel := channel_name, current_user_id := user_id,
                   current_token := token, worker_thread := True, should_stop := False,
                   callback := Some (log @ [OnConnectionStateChanged 2 1,
                                            OnConnectionStateChanged 3 2,
                                            OnJoinChannelSuccess channel_name user_id 100])\<rparr>)"
  using assms
  by (simp add: JoinChannel_body_def JoinChannel_try_def SetConnectionState_def
      InvokeCallback_def Let_def)


text \<open>
  C1 (the code departs from the claim). A freshly created orchestrator is
  \<open>DISCONNECTED\<close>, in no channel, and has a live negotiator and a sink; the call
  \<open>JoinChannel("t", "c", "u")\<close> on it does not return: line 130 locks \<open>state_mutex_\<close>
  and line 132 calls \<open>IsInChannel()\<close>, which locks it again.
\<close>

theorem JoinChannel_created_engine_deadlocks:
  "connection_state created_engine = DISCONNECTED
   \<and> current_channel created_engine = []
   \<and> webrtc_wrapper created_engine \<noteq> None
   \<and> JoinChannel WebRTCWrapper False ''t'' ''c'' ''u'' created_engine = Deadlock"
  by (simp add: JoinChannel_relocks) (simp add: created_engine_def)

text \<open>
  C2. The \<open>try\<close> block of \<open>JoinChannel\<close>, entered after the checks of lines 132--146:
  when \<open>CreatePeerConnection\<close> returns false it returns \<open>-4\<close>, when \<open>AddLocalStreams\<close>
  returns false it returns \<open>-5\<close>, and in both cases the state is \<open>FAILED\<close> and the
  channel, user id and token fields hold the arguments of the call; when the exception
  path is taken it returns \<open>-6\<close> with the state \<open>FAILED\<close> and the three fields empty.
  A non-zero code is returned on these three paths only.
\<close>

theorem JoinChannel_try_failure_paths:
  fixes api :: "'w wrapper_api" and w :: 'w and s :: "'w RtcEngineImpl"
    and spawn_fails :: bool and token channel_name user_id :: string
  defines "created \<equiv> fst (api_CreatePeerConnection api w)"
  defines "added \<equiv> fst (api_AddLocalStreams api (snd (api_CreatePeerConnection api w)))"
  defines "r \<equiv> JoinChannel_try api spawn_fails token channel_name user_id w s"
  shows "(\<not> created \<longrightarrow>
            (\<exists>s'. r = Returns (- 4, s') \<and> connection_state s' = FAILED
               \<and> current_channel s' = channel_name \<and> current_user_id s' = user_id
               \<and> current_token s' = token))
       \<and> (created \<and> \<not> added \<longrightarrow>
            (\<exists>s'. r = Returns (- 5, s') \<and> connection_state s' = FAILED
               \<and> current_channel s' = channel_name \<and> current_user_id s' = user_id
               \<and> current_token s' = token))
       \<and> (created \<and> added \<and> spawn_fails \<longrightarrow>
            (\<exists>s'. r = Returns (- 6, s') \<and> connection_state s' = FAILED
               \<and> current_channel s' = [] \<and> current_user_id s' = []
               \<and> current_token s' = []))
       \<and> (\<forall>code s'. r = Returns (code, s') \<and> code \<noteq> 0 \<longrightarrow>
            \<not> created \<or> \<not> added \<or> spawn_fails)"
proof -
  obtain c w1 where cp: "api_CreatePeerConnection api w = (c, w1)"
    by (cases "api_CreatePeerConnection api w")
  obtain a w2 where al: "api_AddLocalStreams api w1 = (a, w2)"
    by (cases "api_AddLocalStreams api w1")
  have state: "\<And>n x. connection_state (SetConnectionState FAILED n x) = FAILED"
    by (simp add: SetConnectionState_def InvokeCallback_def Let_def split: option.splits)
  have chan: "\<And>n x. current_channel (SetConnectionState FAILED n x) = current_channel x"
    by (simp add: SetConnectionState_def InvokeCallback_def Let_def split: option.splits)
  have user: "\<And>n x. current_user_id (SetConnectionState FAILED n x) = current_user_id x"
    by (simp add: SetConnectionState_def InvokeCallback_def Let_def split: option.splits)
  have tok: "\<And>n x. current_token (SetConnectionState FAILED n x) = current_token x"
    by (simp add: SetConnectionState_def InvokeCallback_def Let_def split: option.splits)
  show ?thesis
    unfolding r_def created_def added_def JoinChannel_try_def
    by (simp add: cp al Let_def state chan user tok)
qed

theorem JoinChannel_try_failure_paths_witness:
  "(\<exists>s'. JoinChannel_try WebRTCWrapper False ''t'' ''c'' ''u'' Impl_new created_engine
            = Returns (- 4, s')
         \<and> connection_state s' = FAILED \<and> current_channel s' = ''c''
         \<and> current_user_id s' = ''u'' \<and> current_token s' = ''t'')
   \<and> (\<exists>s'. JoinChannel_try (WebRTCWrapper\<lparr>api_AddLocalStreams := \<lambda>w. (False, w)\<rparr>)
              False ''t'' ''c'' ''u'' (Impl_new\<lparr>is_initialized := True\<rparr>) created_engine
            = Returns (- 5, s')
         \<and> connection_state s' = FAILED \<and> current_channel s' = ''c''
         \<and> current_user_id s' = ''u'' \<and> current_token s' = ''t'')
   \<and> (\<exists>s'. JoinChannel_try WebRTCWrapper True ''t'' ''c'' ''u''
              (Impl_new\<lparr>is_initialized := True\<rparr>) created_engine
            = Returns (- 6, s')
         \<and> connection_state s' = FAILED \<and> current_channel s' = []
         \<and> current_user_id s' = [] \<and> current_token s' = [])"
  using
    JoinChannel_try_failure_paths [of WebRTCWrapper Impl_new False "''t''" "''c''" "''u''"
      created_engine]
    JoinChannel_try_failure_paths [of "WebRTCWrapper\<lparr>api_AddLocalStreams := \<lambda>w. (False, w)\<rparr>"
      "Impl_new\<lparr>is_initialized := True\<rparr>" False "''t''" "''c''" "''u''" created_engine]
    JoinChannel_try_failure_paths [of WebRTCWrapper "Impl_new\<lparr>is_initialized := True\<rparr>"
      True "''t''" "''c''" "''u''" created_engine]
  by (simp add: WebRTCWrapper_def CreatePeerConnection_def AddLocalStreams_def Impl_new_def)


lemma joined_engine_is_joined:
  "JoinChannel_body WebRTCWrapper False ''tok'' ''lobby'' ''alice'' False created_engine
     = Returns (0, joined_engine)"
  by (simp add: JoinChannel_body_def JoinChannel_try_def SetConnectionState_def
      InvokeCallback_def Let_def created_engine_def joined_engine_def WebRTCWrapper_def
      CreatePeerConnection_def AddLocalStreams_def Impl_new_def)

text \<open>
  The checks of \<open>JoinChannel\<close> that follow the answer of \<open>IsInChannel()\<close>, for a call
  with an empty token, channel name or user id: they select \<open>-1\<close> when a channel is
  joined, \<open>-2\<close> when there is no negotiator and \<open>-3\<close> otherwise (line 145), and they
  change no field.
\<close>

lemma JoinChannel_body_rejects_empty:
  assumes "token = [] \<or> channel_name = [] \<or> user_id = []"
  shows "JoinChannel_body api spawn_fails token channel_name user_id (current_channel s \<noteq> []) s
       = Returns (if current_channel s \<noteq> [] then - 1
                  else if webrtc_wrapper s = None then - 2 else - 3, s)"
  using assms by (auto simp: JoinChannel_body_def split: option.splits)

text \<open>
  C3 (the code departs from the claim). On a freshly created orchestrator, which is
  \<open>DISCONNECTED\<close> and in no channel, a call of \<open>JoinChannel\<close> with an empty channel
  name, an empty user id, or all three arguments empty returns no code: line 130 locks
  \<open>state_mutex_\<close> and line 132 calls \<open>IsInChannel()\<close>, which locks it again. The
  statements after line 132 would return the validation code \<open>-3\<close> and leave the
  orchestrator as it was, had \<open>IsInChannel()\<close> answered.
\<close>

theorem JoinChannel_empty_argument_returns_no_code:
  "connection_state created_engine = DISCONNECTED
   \<and> JoinChannel WebRTCWrapper False ''t'' [] ''u'' created_engine = Deadlock
   \<and> JoinChannel WebRTCWrapper False ''t'' ''c'' [] created_engine = Deadlock
   \<and> JoinChannel WebRTCWrapper False [] [] [] created_engine = Deadlock
   \<and> JoinChannel_body WebRTCWrapper False ''t'' [] ''u'' False created_engine
        = Returns (- 3, created_engine)"
  by (simp add: JoinChannel_relocks) (simp add: JoinChannel_body_def created_engine_def)

text \<open>
  C9 (the code departs from the claim). \<open>LeaveChannel()\<close> on a freshly created
  orchestrator, which is in no channel, does not return 0: line 201 locks
  \<open>state_mutex_\<close> and line 203 calls \<open>IsInChannel()\<close>, which locks it again.
\<close>

theorem LeaveChannel_created_engine_deadlocks:
  "current_channel created_engine = []
   \<and> LeaveChannel WebRTCWrapper created_engine = Deadlock"
  by (simp add: LeaveChannel_def lock_guard_def IsInChannel_def and_then_def created_engine_def)

text \<open>
  C10 (the code departs from the claim). The call \<open>JoinChannel("", "c", "u")\<close> yields
  no error code, neither on an orchestrator in no channel nor on one in a channel: in
  both states it stops at the second lock of \<open>state_mutex_\<close>, before any of the checks.
\<close>

theorem JoinChannel_empty_argument_deadlocks:
  "JoinChannel WebRTCWrapper False [] ''c'' ''u'' created_engine = Deadlock
   \<and> JoinChannel WebRTCWrapper False [] ''c'' ''u'' joined_engine = Deadlock"
  by (simp add: JoinChannel_def lock_guard_def IsInChannel_def and_then_def
      created_engine_def joined_engine_def)

section \<open>Negotiator lifecycle\<close>

lemma chain_checks_fail_fast:
  "\<not> is_initialized w \<Longrightarrow> CreatePeerConnection w = (False, w)"
  "\<not> peer_connection_created w \<Longrightarrow> AddLocalStreams w = (False, w)"
  "\<not> peer_connection_created w \<Longrightarrow> CreateOffer w = (Immediate ([], False), w)"
  "\<not> peer_connection_created w \<Longrightarrow> CreateAnswer w = (Immediate ([], False), w)"
  by (simp_all add: CreatePeerConnection_def AddLocalStreams_def CreateOffer_def
      CreateAnswer_def)

text \<open>
  C7 (the code departs from the claim). On a negotiator with no peer connection,
  \<open>SetLocalDescription\<close> and \<open>SetRemoteDescription\<close> check nothing: the completion
  callback is not invoked before they return but 10 ms later from a detached thread, and
  it reports success. \<open>CreateOffer\<close> on the same negotiator does fail at once.
\<close>

theorem SetDescription_without_peer_connection:
  "\<not> peer_connection_created Impl_new
   \<and> SetLocalDescription ''offer'' offer_sdp Impl_new = (Detached 10 True, Impl_new)
   \<and> SetRemoteDescription ''answer'' answer_sdp Impl_new = (Detached 10 True, Impl_new)
   \<and> CreateOffer Impl_new = (Immediate ([], False), Impl_new)"
  by (simp add: SetLocalDescription_def SetRemoteDescription_def CreateOffer_def Impl_new_def)

text \<open>
  Between operations the flags are ordered: from a state in which local-streams-added
  implies peer-connection-created and peer-connection-created implies initialized,
  every sequence of the six lifecycle operations ends in such a state; and every
  operation is the sequence of its assignments.
\<close>

lemma ClosePeerConnection_result:
  "ClosePeerConnection w =
     (if \<not> peer_connection_created w then w
      else w\<lparr>peer_connection_created := False, local_streams_added := False\<rparr>)"
  by (simp add: ClosePeerConnection_def ClosePeerConnection_writes_def)

lemma Cleanup_result:
  "Cleanup w =
     (if peer_connection_created w then ClosePeerConnection w else w)\<lparr>is_initialized := False\<rparr>"
  by (simp add: Cleanup_def Cleanup_writes_def ClosePeerConnection_def)

lemma apply_op_ordered: "flags_ordered w \<Longrightarrow> flags_ordered (apply_op op w)"
  by (cases op)
    (auto simp: flags_ordered_def Initialize_def CreatePeerConnection_def AddLocalStreams_def
      RemoveLocalStreams_def ClosePeerConnection_result Cleanup_result)

lemma run_ops_ordered: "flags_ordered w \<Longrightarrow> flags_ordered (run_ops ops w)"
  unfolding run_ops_def
proof (induction ops arbitrary: w)
  case Nil
  then show ?case by simp
next
  case (Cons op ops)
  from Cons.prems have "flags_ordered (apply_op op w)" by (rule apply_op_ordered)
  then show ?case using Cons.IH by simp
qed

lemma apply_op_writes: "apply_op op w = fold assign (op_writes op w) w"
  by (cases op)
    (simp_all add: Initialize_def CreatePeerConnection_def AddLocalStreams_def
      RemoveLocalStreams_def ClosePeerConnection_def Cleanup_def)

text \<open>
  C8 (the code departs from the claim). \<open>Initialize\<close>, \<open>CreatePeerConnection\<close> and
  \<open>AddLocalStreams\<close> set the flags in the order initialized, peer-connection-created,
  local-streams-added. On the negotiator they leave, \<open>Cleanup\<close> clears
  peer-connection-created first (line 69), local-streams-added second (line 70) and
  initialized last (line 34), which is not the reverse of that order; after its first
  assignment the negotiator is initialized and has local-streams-added without
  peer-connection-created.
\<close>

theorem Cleanup_clears_out_of_order:
  "run_ops [OpInitialize, OpCreatePeerConnection, OpAddLocalStreams] Impl_new
     = connected_negotiator
   \<and> map fst (run_writes [OpInitialize, OpCreatePeerConnection, OpAddLocalStreams] Impl_new)
     = [IS_INITIALIZED, PEER_CONNECTION_CREATED, LOCAL_STREAMS_ADDED]
   \<and> cleared (Cleanup_writes connected_negotiator)
     = [PEER_CONNECTION_CREATED, LOCAL_STREAMS_ADDED, IS_INITIALIZED]
   \<and> cleared (Cleanup_writes connected_negotiator)
     \<noteq> rev [IS_INITIALIZED, PEER_CONNECTION_CREATED, LOCAL_STREAMS_ADDED]
   \<and> map (\<lambda>w. (is_initialized w, peer_connection_created w, local_streams_added w))
       (states_during (Cleanup_writes connected_negotiator) connected_negotiator)
     = [(True, False, True), (True, False, False), (False, False, False)]
   \<and> Cleanup connected_negotiator = Impl_new"
  by (simp add: run_ops_def cleared_def Initialize_def CreatePeerConnection_def
      AddLocalStreams_def Cleanup_def Cleanup_writes_def ClosePeerConnection_writes_def
      connected_negotiator_def Impl_new_def)


section \<open>Handle table\<close>

lemma issued_append: "issued (xs @ ys) = issued xs @ issued ys"
  by (induction xs rule: issued.induct) auto

lemma run_snoc:
  "run (cs @ [c]) r0 =
     (case run cs r0 of
        None \<Rightarrow> None
      | Some (rs, r) \<Rightarrow>
          (case exec c r of None \<Rightarrow> None | Some (x, r') \<Rightarrow> Some (rs @ [x], r')))"
  by (induction cs arbitrary: r0) (auto split: option.splits)

lemma live_since_snoc:
  assumes "live_since cs rs h e" and "length rs = length cs" and "c \<noteq> Destroy h"
  shows "live_since (cs @ [c]) (rs @ [x]) h e"
proof -
  from assms(1) obtain i where i: "i < length cs" "cs ! i = Create (Some e)" "rs ! i = Created h"
    "\<forall>j. i < j \<and> j < length cs \<longrightarrow> cs ! j \<noteq> Destroy h"
    unfolding live_since_def by blast
  have "\<forall>j. i < j \<and> j < length (cs @ [c]) \<longrightarrow> (cs @ [c]) ! j \<noteq> Destroy h"
    using i(4) assms(3) by (auto simp: nth_append)
  moreover have "(cs @ [c]) ! i = Create (Some e)" "(rs @ [x]) ! i = Created h"
    using i assms(2) by (simp_all add: nth_append)
  ultimately show ?thesis
    unfolding live_since_def using i(1) by (intro exI[of _ i]) simp
qed

lemma live_since_new:
  assumes "length rs = length cs"
  shows "live_since (cs @ [Create (Some e)]) (rs @ [Created h]) h e"
  unfolding live_since_def using assms
  by (intro exI[of _ "length cs"]) (auto simp: nth_append)

lemma run_table_inv: "run cs registry_init = Some (rs, r) \<Longrightarrow> table_inv cs rs r"
proof (induction cs arbitrary: rs r rule: rev_induct)
  case Nil
  then have "rs = []" "r = registry_init" by simp_all
  then show ?case by (simp add: table_inv_def registry_init_def)
next
  case (snoc c cs)
  from snoc.prems obtain rs0 r0 x where
    run0: "run cs registry_init = Some (rs0, r0)" and
    ex: "exec c r0 = Some (x, r)" and rs: "rs = rs0 @ [x]"
    by (auto simp: run_snoc split: option.splits)
  from snoc.IH[OF run0] have inv: "table_inv cs rs0 r0" .
  then have len: "length rs0 = length cs"
    and nxt: "g_next_handle r0 = 1 + int (length (issued rs0))"
    and iss: "issued rs0 = [1..int (length (issued rs0))]"
    and live: "\<And>h e. g_engines r0 h = Some e \<Longrightarrow> live_since cs rs0 h e"
    by (simp_all add: table_inv_def)
  show ?case
  proof (cases c)
    case (Create made)
    show ?thesis
    proof (cases made)
      case None
      with Create ex have x: "x = Created 0" and r: "r = r0"
        by (auto simp: nativeCreateEngine_def)
      have "\<And>h e. g_engines r h = Some e \<Longrightarrow> live_since (cs @ [c]) (rs0 @ [x]) h e"
        using live len r Create by (auto intro!: live_since_snoc)
      then show ?thesis
        using len nxt iss by (simp add: table_inv_def rs x r issued_append)
    next
      case (Some e)
      let ?h = "g_next_handle r0"
      from Some Create ex have x: "x = Created ?h"
        and r: "r = r0\<lparr>g_next_handle := ?h + 1, g_engines := (g_engines r0)(?h \<mapsto> e)\<rparr>"
        by (auto simp: nativeCreateEngine_def Let_def split: if_splits)
      have h0: "?h \<noteq> 0" using nxt by simp
      have iss': "issued (rs0 @ [x]) = issued rs0 @ [?h]"
        using h0 by (simp add: issued_append x)
      have up: "issued (rs0 @ [x]) = [1..int (length (issued (rs0 @ [x])))]"
      proof -
        have "[1..int (length (issued rs0)) + 1] = [1..int (length (issued rs0))] @ [?h]"
          using nxt upto_rec2[of 1 "int (length (issued rs0)) + 1"] by simp
        then have "[1..int (length (issued rs0)) + 1] = issued rs0 @ [?h]"
          using iss by simp
        then show ?thesis by (simp add: iss' add.commute)
      qed
      have "\<And>h e'. g_engines r h = Some e' \<Longrightarrow> live_since (cs @ [c]) (rs0 @ [x]) h e'"
      proof -
        fix h e' assume g: "g_engines r h = Some e'"
        show "live_since (cs @ [c]) (rs0 @ [x]) h e'"
        proof (cases "h = ?h")
          case True
          with g r have "e' = e" by simp
          with True show ?thesis using live_since_new[OF len] Create Some x by simp
        next
          case False
          with g r have "g_engines r0 h = Some e'" by simp
          then show ?thesis using live len Create by (auto intro!: live_since_snoc)
        qed
      qed
      moreover have "length (rs0 @ [x]) = length (cs @ [c])"
        using len by simp
      moreover have "g_next_handle r = 1 + int (length (issued (rs0 @ [x])))"
        using nxt by (simp add: r iss')
      ultimately show ?thesis
        unfolding table_inv_def rs using up by blast
    qed
  next
    case (Destroy h0)
    with ex have x: "x = Destroyed" and r: "r = nativeDestroyEngine h0 r0" by auto
    have g: "\<And>h e. g_engines r h = Some e \<Longrightarrow> h \<noteq> h0 \<and> g_engines r0 h = Some e"
      by (auto simp: r nativeDestroyEngine_def split: option.splits if_splits)
    have n: "g_next_handle r = g_next_handle r0"
      by (simp add: r nativeDestroyEngine_def split: option.splits)
    have "\<And>h e. g_engines r h = Some e \<Longrightarrow> live_since (cs @ [c]) (rs0 @ [x]) h e"
      using g live len Destroy by (auto intro!: live_since_snoc)
    then show ?thesis
      using len nxt iss n by (simp add: table_inv_def rs x issued_append)
  next
    case (Resolve h0)
    with ex have x: "x = Resolved (get_engine h0 r0)" and r: "r = r0" by auto
    have "\<And>h e. g_engines r h = Some e \<Longrightarrow> live_since (cs @ [c]) (rs0 @ [x]) h e"
      using live len r Resolve by (auto intro!: live_since_snoc)
    then show ?thesis
      using len nxt iss by (simp add: table_inv_def rs x r issued_append)
  qed
qed


lemma exec_in_range:
  assumes "handles_in_range r" and "exec c r = Some (x, r')"
  shows "handles_in_range r'"
proof (cases c)
  case (Create made)
  show ?thesis
  proof (cases made)
    case None
    with Create assms show ?thesis by (auto simp: nativeCreateEngine_def)
  next
    case (Some e)
    with Create assms(2) have r': "r' = r\<lparr>g_next_handle := g_next_handle r + 1,
        g_engines := (g_engines r)(g_next_handle r \<mapsto> e)\<rparr>"
      by (auto simp: nativeCreateEngine_def Let_def split: if_splits)
    from assms(1) have n: "1 \<le> g_next_handle r"
      and b: "\<And>h. g_engines r h \<noteq> None \<Longrightarrow> 1 \<le> h \<and> h < g_next_handle r"
      by (simp_all add: handles_in_range_def)
    have stored: "1 \<le> h \<and> h < g_next_handle r'" if "g_engines r' h \<noteq> None" for h
    proof (cases "h = g_next_handle r")
      case True
      then show ?thesis using n by (simp add: r')
    next
      case False
      with that have "g_engines r h \<noteq> None" by (simp add: r')
      from b[OF this] show ?thesis by (simp add: r')
    qed
    have "1 \<le> g_next_handle r'" using n by (simp add: r')
    then show ?thesis unfolding handles_in_range_def using stored by blast
  qed
next
  case (Destroy h)
  with assms show ?thesis
    by (auto simp: handles_in_range_def nativeDestroyEngine_def split: option.splits if_splits)
next
  case (Resolve h)
  with assms show ?thesis by auto
qed

lemma run_in_range: "handles_in_range r0 \<Longrightarrow> run cs r0 = Some (rs, r) \<Longrightarrow> handles_in_range r"
proof (induction cs arbitrary: r0 rs)
  case Nil
  then show ?case by simp
next
  case (Cons c cs)
  from Cons.prems(2) obtain x r1 xs where
    step: "exec c r0 = Some (x, r1)" and rest: "run cs r1 = Some (xs, r)"
    by (auto split: option.splits)
  from exec_in_range[OF Cons.prems(1) step] have "handles_in_range r1" .
  then show ?case using Cons.IH rest by blast
qed

lemma issued_member:
  "i < length rs \<Longrightarrow> rs ! i = Created h \<Longrightarrow> h \<noteq> 0 \<Longrightarrow> h \<in> set (issued rs)"
  by (induction rs arbitrary: i rule: issued.induct) (auto simp: nth_Cons split: nat.splits)

lemma issued_in_index_order:
  assumes "sorted_wrt (<) (issued rs)" and "i < j" and "j < length rs"
    and "rs ! i = Created h" and "h \<noteq> 0" and "rs ! j = Created h'" and "h' \<noteq> 0"
  shows "h < h'"
proof -
  have split: "issued rs = issued (take j rs) @ issued (drop j rs)"
    by (metis append_take_drop_id issued_append)
  have "take j rs ! i = Created h" "i < length (take j rs)"
    using assms by simp_all
  then have a: "h \<in> set (issued (take j rs))"
    using assms(5) issued_member by blast
  have "drop j rs ! 0 = Created h'" "0 < length (drop j rs)"
    using assms by simp_all
  then have b: "h' \<in> set (issued (drop j rs))"
    using assms(7) issued_member by blast
  from assms(1) show ?thesis
    unfolding split sorted_wrt_append using a b by blast
qed

text \<open>
  C5. In every run of create, destroy and resolve operations from the initial table
  (short of the overflow of \<open>g_next_handle\<close>), the handles returned by successful
  creations are 1, 2, 3, ... in order, so strictly increasing and never repeated;
  a handle below 1 or above the number of handles issued resolves to null, and so does
  any handle that no creation returned; a handle destroyed after it
  was issued resolves to null; and a handle that resolves to an orchestrator resolves to
  the one stored when the handle was issued, with no destroy of it since.
\<close>

theorem handle_table_sound:
  assumes "run cs registry_init = Some (rs, r)"
  shows "issued rs = [1..int (length (issued rs))]
       \<and> distinct (issued rs)
       \<and> (\<forall>h. h < 1 \<or> int (length (issued rs)) < h \<longrightarrow> get_engine h r = None)
       \<and> (\<forall>i j h h'. i < j \<and> j < length rs \<and> rs ! i = Created h \<and> h \<noteq> 0
             \<and> rs ! j = Created h' \<and> h' \<noteq> 0 \<longrightarrow> h < h')
       \<and> (\<forall>h. (\<forall>i<length rs. rs ! i \<noteq> Created h) \<longrightarrow> get_engine h r = None)
       \<and> (\<forall>h i j. i < j \<and> j < length cs \<and> rs ! i = Created h \<and> h \<noteq> 0
             \<and> cs ! j = Destroy h \<longrightarrow> get_engine h r = None)
       \<and> (\<forall>h e. get_engine h r = Some e \<longrightarrow> live_since cs rs h e)"
proof -
  from assms have inv: "table_inv cs rs r" by (rule run_table_inv)
  then have len: "length rs = length cs"
    and nxt: "g_next_handle r = 1 + int (length (issued rs))"
    and iss: "issued rs = [1..int (length (issued rs))]"
    and live: "\<And>h e. get_engine h r = Some e \<Longrightarrow> live_since cs rs h e"
    by (simp_all add: table_inv_def get_engine_def)
  have sorted: "sorted_wrt (<) (issued rs)"
    by (subst iss) simp
  have dist: "distinct (issued rs)"
    by (subst iss) simp
  have "handles_in_range (registry_init :: 'a registry)"
    by (simp add: handles_in_range_def registry_init_def)
  from run_in_range[OF this assms] nxt
  have outside: "\<And>h. h < 1 \<or> int (length (issued rs)) < h \<Longrightarrow> get_engine h r = None"
    by (auto simp: handles_in_range_def get_engine_def)
  have order: "\<And>i j h h'. i < j \<Longrightarrow> j < length rs \<Longrightarrow> rs ! i = Created h \<Longrightarrow> h \<noteq> 0
      \<Longrightarrow> rs ! j = Created h' \<Longrightarrow> h' \<noteq> 0 \<Longrightarrow> h < h'"
    using issued_in_index_order[OF sorted] by blast
  have never: "\<And>h. (\<forall>i<length rs. rs ! i \<noteq> Created h) \<Longrightarrow> get_engine h r = None"
  proof (rule ccontr)
    fix h assume no: "\<forall>i<length rs. rs ! i \<noteq> Created h" and "get_engine h r \<noteq> None"
    then obtain e where "get_engine h r = Some e" by blast
    from live[OF this] no len show False
      unfolding live_since_def by auto
  qed
  have destroyed: "\<And>h i j. i < j \<Longrightarrow> j < length cs \<Longrightarrow> rs ! i = Created h \<Longrightarrow> h \<noteq> 0
      \<Longrightarrow> cs ! j = Destroy h \<Longrightarrow> get_engine h r = None"
  proof (rule ccontr)
    fix h i j
    assume ij: "i < j" and j: "j < length cs" and ci: "rs ! i = Created h" and h0: "h \<noteq> 0"
      and dj: "cs ! j = Destroy h" and "get_engine h r \<noteq> None"
    then obtain e where "get_engine h r = Some e" by blast
    from live[OF this] obtain k where k: "k < length cs" "cs ! k = Create (Some e)"
      "rs ! k = Created h" "\<forall>j. k < j \<and> j < length cs \<longrightarrow> cs ! j \<noteq> Destroy h"
      unfolding live_since_def by blast
    have "\<not> k < j" using k(4) j dj by blast
    moreover have "k \<noteq> j" using k(2) dj by auto
    ultimately have "i < k" using ij by simp
    from order[OF this _ ci h0 k(3) h0] k(1) len show False by simp
  qed
  show ?thesis
    using iss dist outside order never destroyed live by blast
qed

theorem handle_table_sound_witness:
  "run [Create (Some ''a''), Create None, Create (Some ''b''), Destroy 1, Resolve 1,
        Resolve 2, Resolve 7] registry_init
     = Some ([Created 1, Created 0, Created 2, Destroyed, Resolved None,
              Resolved (Some ''b''), Resolved None],
             snd (the (run [Create (Some ''a''), Create None, Create (Some ''b''), Destroy 1,
                            Resolve 1, Resolve 2, Resolve 7] registry_init)))
   \<and> get_engine 1 (snd (the (run [Create (Some ''a''), Create None, Create (Some ''b''),
        Destroy 1, Resolve 1, Resolve 2, Resolve 7] registry_init))) = None
   \<and> get_engine 7 (snd (the (run [Create (Some ''a''), Create None, Create (Some ''b''),
        Destroy 1, Resolve 1, Resolve 2, Resolve 7] registry_init))) = None
   \<and> get_engine 0 (snd (the (run [Create (Some ''a''), Create None, Create (Some ''b''),
        Destroy 1, Resolve 1, Resolve 2, Resolve 7] registry_init))) = None"
proof -
  let ?cs = "[Create (Some ''a''), Create None, Create (Some ''b''), Destroy 1, Resolve 1,
        Resolve 2, Resolve 7]"
  let ?rs = "[Created 1, Created 0, Created 2, Destroyed, Resolved None,
              Resolved (Some ''b''), Resolved None]"
  have h: "run ?cs registry_init = Some (?rs, snd (the (run ?cs registry_init)))"
    by (simp add: registry_init_def nativeCreateEngine_def nativeDestroyEngine_def
        get_engine_def JLONG_MAX_def)
  note sound = handle_table_sound [OF h]
  note outside = sound [THEN conjunct2, THEN conjunct2, THEN conjunct1, rule_format]
  note destroyed = sound [THEN conjunct2, THEN conjunct2, THEN conjunct2, THEN conjunct2,
      THEN conjunct2, THEN conjunct1, rule_format]
  have g1: "get_engine 1 (snd (the (run ?cs registry_init))) = None"
    by (rule destroyed [of 0 3]) simp
  have g7: "get_engine 7 (snd (the (run ?cs registry_init))) = None"
    by (rule outside) simp
  have g0: "get_engine 0 (snd (the (run ?cs registry_init))) = None"
    by (rule outside) simp
  from h g1 g7 g0 show ?thesis
    by (intro conjI)
qed

section \<open>Configuration defaults\<close>




















end
